theory Spec2Isabelle
  imports Complex_Main "HOL-Library.Word"
begin

unbundle bit_operations_syntax

section \<open>The position detection script \<^verbatim>\<open>Detection/version2/main2.py\<close>\<close>

text \<open>
  The script has two functions with logic of their own: \<^verbatim>\<open>process_frame\<close>, which turns
  the boxes found by the detection model into a status, and \<^verbatim>\<open>main\<close>, which wraps the
  capture loop in \<^verbatim>\<open>try / except / finally\<close>. Camera, detection model and OpenCV are
  external: what each of their calls returns or raises is an input of the model below.

  Python integers are \<open>int\<close> (\<^verbatim>\<open>//\<close> is \<open>div\<close>, both round towards minus infinity).
  Python floats are IEEE doubles; the true division \<^verbatim>\<open>diff_x / width_t\<close> and the product
  with 100 round as doubles do, see the subsection on floats.
\<close>

subsection \<open>Exceptions\<close>

text \<open>
  The exceptions that matter to the control flow. \<open>OtherException\<close> stands for any other
  subclass of \<^verbatim>\<open>Exception\<close> with its message, \<open>OtherBaseException\<close> for a subclass of
  \<^verbatim>\<open>BaseException\<close> that is neither (\<^verbatim>\<open>SystemExit\<close>, \<^verbatim>\<open>GeneratorExit\<close>).
\<close>

datatype py_exn =
    KeyboardInterrupt
  | ZeroDivisionError
  | OverflowError
  | UnboundLocalError string
  | OtherException string
  | OtherBaseException string

text \<open>What \<^verbatim>\<open>except Exception\<close> matches.\<close>

fun is_Exception :: "py_exn \<Rightarrow> bool" where
  "is_Exception KeyboardInterrupt = False"
| "is_Exception ZeroDivisionError = True"
| "is_Exception OverflowError = True"
| "is_Exception (UnboundLocalError v) = True"
| "is_Exception (OtherException msg) = True"
| "is_Exception (OtherBaseException msg) = False"

text \<open>The result of a call into a library: it returns a value or raises.\<close>

datatype 'a outcome = Returns 'a | Raises py_exn

subsection \<open>Floats\<close>

text \<open>
  A Python float is an IEEE double. Its value is kept as a rational number: a finite
  double is the number it denotes, and the two infinities are written \<open>2 ^ 1024\<close> and
  \<open>- (2 ^ 1024)\<close>, the first power of two beyond the finite doubles, so that the order
  of the rationals is the order of the doubles. The two zeros are one (they compare
  equal and differ only in a formatted text), and no operation of the script yields a
  NaN.

  \<open>bit_length\<close> is \<^verbatim>\<open>int.bit_length\<close> on positive integers, and \<open>binade q\<close> the exponent
  \<open>e\<close> with \<open>2 ^ e \<le> q < 2 ^ (e + 1)\<close> of a positive \<open>q\<close>.
\<close>

function bit_length :: "int \<Rightarrow> int" where
  "bit_length n = (if n \<le> 0 then 0 else 1 + bit_length (n div 2))"
  by pat_completeness auto
termination
  by (relation "measure nat") auto

declare bit_length.simps [simp del]

definition pow2 :: "int \<Rightarrow> rat" where
  "pow2 e = (if 0 \<le> e then 2 ^ nat e else 1 / 2 ^ nat (- e))"

definition binade :: "rat \<Rightarrow> int" where
  "binade q =
     (let (a, b) = quotient_of q;
          e0 = bit_length a - bit_length b
      in if pow2 e0 \<le> q then e0 else e0 - 1)"

text \<open>The nearest integer of a rational that is not negative, ties to the even one.\<close>

definition round_half_even :: "rat \<Rightarrow> int" where
  "round_half_even r =
     (let f = \<lfloor>r\<rfloor>; d = r - of_int f
      in if d < 1 / 2 then f
         else if d > 1 / 2 then f + 1
         else if even f then f else f + 1)"

text \<open>
  Rounding to the nearest double, ties to the even significand. A double has 53
  significant bits, so the doubles around \<open>q\<close> are the multiples of \<open>2 ^ (e - 52)\<close> with
  \<open>e\<close> the binade of \<open>\<bar>q\<bar>\<close>; below \<open>2 ^ (- 1022)\<close> the spacing stays that of the lowest
  binade (subnormal numbers). \<open>significand q\<close> is that exponent \<open>e\<close> with the multiple
  \<open>n\<close> nearest to \<open>\<bar>q\<bar>\<close>. The result overflows when its magnitude \<open>n * 2 ^ (e - 52)\<close>
  reaches \<open>2 ^ 1024\<close>; it is then an infinity.
\<close>

definition significand :: "rat \<Rightarrow> int \<times> int" where
  "significand q =
     (let e = max (binade \<bar>q\<bar>) (- 1022);
          n = round_half_even (\<bar>q\<bar> / pow2 (e - 52))
      in (e, n))"

definition overflows :: "rat \<Rightarrow> bool" where
  "overflows q =
     (q \<noteq> 0 \<and> (case significand q of (e, n) \<Rightarrow> e > 1023 \<or> (e = 1023 \<and> n = 2 ^ 53)))"

definition round_double :: "rat \<Rightarrow> rat" where
  "round_double q =
     (if q = 0 then 0
      else if overflows q then sgn q * pow2 1024
      else (case significand q of (e, n) \<Rightarrow> sgn q * (of_int n * pow2 (e - 52))))"

text \<open>
  \<^verbatim>\<open>a / b\<close> on two Python integers: the quotient rounded once to the nearest double;
  \<^verbatim>\<open>ZeroDivisionError\<close> on a zero divisor, \<^verbatim>\<open>OverflowError\<close> when the result is too
  large for a float.
\<close>

definition true_divide :: "int \<Rightarrow> int \<Rightarrow> py_exn + rat" where
  "true_divide a b =
     (if b = 0 then Inl ZeroDivisionError
      else if overflows (of_int a / of_int b) then Inl OverflowError
      else Inr (round_double (of_int a / of_int b)))"

text \<open>
  The product of a float and a finite nonzero float: the exact product rounded to the
  nearest double. An infinite factor gives the infinity back, and the product overflows
  to an infinity without raising.
\<close>

definition float_mul :: "rat \<Rightarrow> rat \<Rightarrow> rat" where
  "float_mul x y = round_double (x * y)"

subsection \<open>Frames, detections and drawing\<close>

text \<open>
  Of a frame only \<^verbatim>\<open>frame.shape\<close> is read: \<open>shape0\<close> is \<^verbatim>\<open>frame.shape[0]\<close> (the height),
  \<open>shape1\<close> is \<^verbatim>\<open>frame.shape[1]\<close> (the width).
\<close>

record frame =
  shape0 :: int
  shape1 :: int

text \<open>
  One row of \<^verbatim>\<open>results[0].boxes.data\<close> as the loop body sees it after its first lines
  (36 to 41): the four corners converted by \<^verbatim>\<open>int\<close>, and \<^verbatim>\<open>class_name\<close>, the entry of
  \<^verbatim>\<open>model.names\<close> for the row's class index. The confidence only enters \<^verbatim>\<open>label\<close>,
  which is never drawn or read, and is left out.
\<close>

record detection =
  x1 :: int
  y1 :: int
  x2 :: int
  y2 :: int
  class_name :: string

type_synonym point = "int \<times> int"
type_synonym color = "nat \<times> nat \<times> nat"
type_synonym box = "int \<times> int \<times> int \<times> int"

text \<open>
  The texts that are drawn are f-strings; each constructor is one of the formats, with
  the values that are formatted into it.
\<close>

datatype text_item =
    Corner int int             \<comment> \<open>\<^verbatim>\<open>f"({x}, {y})"\<close>\<close>
  | Mid int int                \<comment> \<open>\<^verbatim>\<open>f"Mid: ({mid_x}, {y1})"\<close>\<close>
  | T_mid_x int                \<comment> \<open>\<^verbatim>\<open>f"t_mid_x: {t_mid_x}"\<close>\<close>
  | L_mid_x int                \<comment> \<open>\<^verbatim>\<open>f"l_mid_x: {l_mid_x}"\<close>\<close>
  | Width_t int                \<comment> \<open>\<^verbatim>\<open>f"width_t: {width_t}"\<close>\<close>
  | Pct rat                    \<comment> \<open>\<^verbatim>\<open>f"Pct: {percentage:.2f}%"\<close>\<close>
  | H_Status string            \<comment> \<open>\<^verbatim>\<open>f"H-Status: {h_status}"\<close>\<close>
  | V_Position string          \<comment> \<open>\<^verbatim>\<open>f"V-Position: {v_status}"\<close>\<close>
  | Plain string

text \<open>
  The calls of \<^verbatim>\<open>cv2\<close> on the copy of the frame, with their arguments in the order of the
  source (the font is always \<^verbatim>\<open>FONT_HERSHEY_SIMPLEX\<close>). The annotated frame is the list of
  the calls made on it, first call first.
\<close>

datatype draw =
    Line point point color int
  | Rectangle point point color int
  | PutText text_item point rat color int
  | Circle point int color int

subsection \<open>The loop over the detections (lines 35 to 63)\<close>

text \<open>
  The variables the loop writes: the stored boxes of the two classes (the four variables
  of each are set together, so each is one optional box), the loop's own variables,
  which keep the values of the last iteration after the loop (\<open>row\<close>; unbound when the
  loop body never ran), and the frame being annotated.
\<close>

record loop_state =
  t_box :: "box option"
  l_box :: "box option"
  row :: "detection option"
  annotated_frame :: "draw list"

text \<open>Before the loop (lines 26 to 33): nothing stored, the middle line drawn.\<close>

definition start :: "frame \<Rightarrow> int \<Rightarrow> loop_state" where
  "start fr middle_x =
     \<lparr>t_box = None, l_box = None, row = None,
      annotated_frame = [Line (middle_x, 0) (middle_x, shape0 fr) (255, 0, 0) 1]\<rparr>"

definition draw_detection :: "detection \<Rightarrow> draw list" where
  "draw_detection d =
     (let mid_x = (x1 d + x2 d) div 2 in
      [Rectangle (x1 d, y1 d) (x2 d, y2 d) (0, 255, 0) 2,
       PutText (Corner (x1 d) (y1 d)) (x1 d, y1 d - 30) (1 / 2) (0, 255, 0) 2,
       PutText (Corner (x2 d) (y2 d)) (x2 d, y2 d + 10) (1 / 2) (0, 255, 0) 2,
       Circle (mid_x, y1 d) 3 (0, 0, 255) (- 1),
       PutText (Mid mid_x (y1 d)) (mid_x, y1 d - 10) (1 / 2) (0, 0, 255) 2])"

definition loop_body :: "loop_state \<Rightarrow> detection \<Rightarrow> loop_state" where
  "loop_body s d =
     (let s1 = s\<lparr>row := Some d, annotated_frame := annotated_frame s @ draw_detection d\<rparr> in
      if class_name d = ''topTether'' then s1\<lparr>t_box := Some (x1 d, y1 d, x2 d, y2 d)\<rparr>
      else if class_name d = ''logo'' then s1\<lparr>l_box := Some (x1 d, y1 d, x2 d, y2 d)\<rparr>
      else s1)"

fun for_loop :: "loop_state \<Rightarrow> detection list \<Rightarrow> loop_state" where
  "for_loop s [] = s"
| "for_loop s (d # ds) = for_loop (loop_body s d) ds"

subsection \<open>The position block (lines 66 to 114)\<close>

text \<open>What the block computes; all of it is drawn on the frame and printed.\<close>

record report =
  t_mid_x :: int
  l_mid_x :: int
  width_t :: int
  percentage :: rat
  h_status :: string
  h_color :: color
  v_status :: string
  logo_status :: string
  logo_color :: color

record frame_result =
  annotated :: "draw list"
  printed :: "report option"

definition horizontal :: "rat \<Rightarrow> string \<times> color" where
  "horizontal p =
     (if p < 1 then (''Left of Normal Position'', (0, 255, 255))
      else if p > 10 then (''Right of Normal Position'', (0, 0, 255))
      else (''Normal Position'', (0, 255, 0)))"

definition logo :: "string \<Rightarrow> string \<Rightarrow> string \<Rightarrow> string \<times> color" where
  "logo h v c =
     (if h = ''Normal Position'' \<and> v = ''Right'' \<and> c \<noteq> ''inverted_topTether''
         \<and> c \<noteq> ''inverted_logo''
      then (''NORMAL LOGO'', (0, 0, 255))
      else (''DEFECTIVE LOGO'', (0, 255, 0)))"

definition draw_report :: "frame \<Rightarrow> report \<Rightarrow> draw list" where
  "draw_report fr r =
     [PutText (T_mid_x (t_mid_x r)) (10, 30) (7 / 10) (255, 0, 0) 2,
      PutText (L_mid_x (l_mid_x r)) (10, 60) (7 / 10) (255, 0, 0) 2,
      PutText (Width_t (width_t r)) (10, 90) (7 / 10) (255, 0, 0) 2,
      PutText (Pct (percentage r)) (10, 120) (7 / 10) (255, 0, 0) 2,
      PutText (H_Status (h_status r)) (10, 150) (7 / 10) (h_color r) 2,
      PutText (V_Position (v_status r)) (10, 180) (7 / 10) (255, 165, 0) 2,
      PutText (Plain (logo_status r)) (10, shape0 fr - 20) (6 / 5) (logo_color r) 3]"

text \<open>
  The block in the order of the source: the division comes first and raises on a zero
  width; \<^verbatim>\<open>x2\<close> and \<^verbatim>\<open>class_name\<close> are then read from the loop's variables. In
  \<^verbatim>\<open>(diff_x / width_t) * 100\<close> the integer 100 is converted to the float 100.0, which
  is exact.
\<close>

fun position :: "frame \<Rightarrow> int \<Rightarrow> loop_state \<Rightarrow> box \<Rightarrow> box \<Rightarrow> py_exn + frame_result" where
  "position fr middle_x s (t_x1, t_y1, t_x2, t_y2) (l_x1, l_y1, l_x2, l_y2) =
     (let t_mid = (t_x1 + t_x2) div 2;
          l_mid = (l_x1 + l_x2) div 2;
          w = t_x2 - t_x1;
          diff_x = l_mid - t_mid
      in (case true_divide diff_x w of
            Inl e \<Rightarrow> Inl e
          | Inr q \<Rightarrow>
              (let p = float_mul q 100;
                   (h, hc) = horizontal p
               in (case row s of
                     None \<Rightarrow> Inl (UnboundLocalError ''x2'')
                   | Some d \<Rightarrow>
                       (let v = (if x2 d > middle_x then ''Right'' else ''Left'');
                            (ls, lc) = logo h v (class_name d);
                            r = \<lparr>t_mid_x = t_mid, l_mid_x = l_mid, width_t = w,
                                 percentage = p,
                                 h_status = h, h_color = hc, v_status = v,
                                 logo_status = ls, logo_color = lc\<rparr>
                        in Inr \<lparr>annotated = annotated_frame s @ draw_report fr r,
                                printed = Some r\<rparr>)))))"

subsection \<open>\<^verbatim>\<open>process_frame\<close>\<close>

text \<open>
  The second argument is what \<^verbatim>\<open>model.predict\<close> does on this frame: the rows it returns,
  in the order the loop iterates them, or the exception it raises.
\<close>

definition process_frame :: "frame \<Rightarrow> detection list outcome \<Rightarrow> py_exn + frame_result" where
  "process_frame fr predict =
     (let image_width = shape1 fr;
          middle_x = image_width div 2
      in (case predict of
            Raises e \<Rightarrow> Inl e
          | Returns boxes \<Rightarrow>
              (let s = for_loop (start fr middle_x) boxes
               in (case t_box s of
                     None \<Rightarrow> Inr \<lparr>annotated = annotated_frame s, printed = None\<rparr>
                   | Some t \<Rightarrow>
                       (case l_box s of
                          None \<Rightarrow> Inr \<lparr>annotated = annotated_frame s, printed = None\<rparr>
                        | Some l \<Rightarrow> position fr middle_x s t l)))))"

text \<open>
  Reading the result of a call: the offset percentage and the three statuses, when the
  call returned and computed them.
\<close>

definition offset_percentage :: "py_exn + frame_result \<Rightarrow> rat option" where
  "offset_percentage res =
     (case res of Inl e \<Rightarrow> None | Inr fr \<Rightarrow> map_option percentage (printed fr))"

definition horizontal_status :: "py_exn + frame_result \<Rightarrow> string option" where
  "horizontal_status res =
     (case res of Inl e \<Rightarrow> None | Inr fr \<Rightarrow> map_option h_status (printed fr))"

definition side_status :: "py_exn + frame_result \<Rightarrow> string option" where
  "side_status res =
     (case res of Inl e \<Rightarrow> None | Inr fr \<Rightarrow> map_option v_status (printed fr))"

definition classification :: "py_exn + frame_result \<Rightarrow> string option" where
  "classification res =
     (case res of Inl e \<Rightarrow> None | Inr fr \<Rightarrow> map_option logo_status (printed fr))"

text \<open>
  The report as one expression of the stored boxes, the middle, the quotient \<open>q\<close> of the
  division and the row the loop ended on; \<open>position_eq\<close> below shows that \<open>position\<close>
  computes it.
\<close>

definition box_quotient :: "box \<Rightarrow> box \<Rightarrow> py_exn + rat" where
  "box_quotient t l =
     (case t of (t_x1, t_y1, t_x2, t_y2) \<Rightarrow>
      (case l of (l_x1, l_y1, l_x2, l_y2) \<Rightarrow>
        true_divide ((l_x1 + l_x2) div 2 - (t_x1 + t_x2) div 2) (t_x2 - t_x1)))"

definition report_of :: "int \<Rightarrow> box \<Rightarrow> box \<Rightarrow> rat \<Rightarrow> detection \<Rightarrow> report" where
  "report_of middle_x t l q d =
     (case t of (t_x1, t_y1, t_x2, t_y2) \<Rightarrow>
      (case l of (l_x1, l_y1, l_x2, l_y2) \<Rightarrow>
        (let p = float_mul q 100;
             h = fst (horizontal p);
             v = (if x2 d > middle_x then ''Right'' else ''Left'')
         in \<lparr>t_mid_x = (t_x1 + t_x2) div 2, l_mid_x = (l_x1 + l_x2) div 2,
             width_t = t_x2 - t_x1, percentage = p,
             h_status = h, h_color = snd (horizontal p), v_status = v,
             logo_status = fst (logo h v (class_name d)),
             logo_color = snd (logo h v (class_name d))\<rparr>)))"

text \<open>A class is detected in a frame when some row of the result carries its name.\<close>

definition detected :: "string \<Rightarrow> detection list \<Rightarrow> bool" where
  "detected c boxes = (\<exists>d \<in> set boxes. class_name d = c)"

subsection \<open>\<^verbatim>\<open>main\<close>\<close>

text \<open>
  What the outside world does during one run: the outcome of every call that leaves
  the script. A \<^verbatim>\<open>KeyboardInterrupt\<close> is raised by the call during which it arrives.
  \<open>iterations\<close> holds the outcomes for the passes through \<^verbatim>\<open>while True\<close>, first pass
  first; \<open>cvtColor\<close> returns the converted frame.
\<close>

record iteration =
  capture_array :: "frame outcome"
  cvtColor :: "frame outcome"
  predict :: "detection list outcome"
  imshow :: "unit outcome"
  waitKey :: "int outcome"

record world =
  initialize_camera :: "unit outcome"
  YOLO :: "unit outcome"
  iterations :: "iteration list"
  stop :: "unit outcome"
  destroyAllWindows :: "unit outcome"

text \<open>What a run does that can be observed from outside, in order.\<close>

datatype action =
    Print string
  | Print_report report        \<comment> \<open>the line \<^verbatim>\<open>process_frame\<close> prints\<close>
  | Print_error py_exn         \<comment> \<open>\<^verbatim>\<open>print(f"An error occurred: {str(e)}")\<close>\<close>
  | Show "draw list"           \<comment> \<open>\<^verbatim>\<open>cv2.imshow\<close> has shown the annotated frame\<close>
  | Camera_stopped             \<comment> \<open>\<^verbatim>\<open>picam2.stop()\<close> has returned\<close>
  | Windows_destroyed          \<comment> \<open>\<^verbatim>\<open>cv2.destroyAllWindows()\<close> has returned\<close>

text \<open>
  How a block ends. The loop has no bound of its own: when the recorded passes are used
  up and nothing has ended it, it is still \<open>Running\<close>.
\<close>

datatype ending = Completed | Raised py_exn | Running

fun while_loop :: "iteration list \<Rightarrow> action list \<times> ending" where
  "while_loop [] = ([], Running)"
| "while_loop (it # its) =
     (case capture_array it of
        Raises e \<Rightarrow> ([], Raised e)
      | Returns frame \<Rightarrow>
          (case cvtColor it of
             Raises e \<Rightarrow> ([], Raised e)
           | Returns rgb_frame \<Rightarrow>
               (case process_frame rgb_frame (predict it) of
                  Inl e \<Rightarrow> ([], Raised e)
                | Inr res \<Rightarrow>
                    (let out = (case printed res of None \<Rightarrow> [] | Some r \<Rightarrow> [Print_report r])
                     in (case imshow it of
                           Raises e \<Rightarrow> (out, Raised e)
                         | Returns u \<Rightarrow>
                             (case waitKey it of
                                Raises e \<Rightarrow> (out @ [Show (annotated res)], Raised e)
                              | Returns key \<Rightarrow>
                                  if key AND 255 = 113
                                  then (out @ [Show (annotated res)], Completed)
                                  else (let (acts, e) = while_loop its
                                        in (out @ [Show (annotated res)] @ acts, e))))))))"

text \<open>
  The body of \<^verbatim>\<open>try\<close>. The first component tells whether \<^verbatim>\<open>picam2\<close> was assigned:
  the assignment is the first statement of the body, so it has not happened when
  \<^verbatim>\<open>initialize_camera()\<close> raises.
\<close>

definition try_body :: "world \<Rightarrow> bool \<times> action list \<times> ending" where
  "try_body w =
     (case initialize_camera w of
        Raises e \<Rightarrow> (False, [], Raised e)
      | Returns u \<Rightarrow>
          (case YOLO w of
             Raises e \<Rightarrow> (True, [], Raised e)
           | Returns m \<Rightarrow>
               (let (acts, e) = while_loop (iterations w)
                in (True,
                    [Print ''Model loaded successfully'',
                     Print ''Starting position detection. Press 'q' to exit.''] @ acts,
                    e))))"

text \<open>
  The two \<^verbatim>\<open>except\<close> clauses: what they print, and the exception that is still pending
  after them, if any.
\<close>

fun handlers :: "ending \<Rightarrow> action list \<times> py_exn option" where
  "handlers (Raised e) =
     (if e = KeyboardInterrupt then ([Print (CHR 0x0A # ''Exiting program...'')], None)
      else if is_Exception e then ([Print_error e], None)
      else ([], Some e))"
| "handlers Completed = ([], None)"
| "handlers Running = ([], None)"

text \<open>
  The \<^verbatim>\<open>finally\<close> clause, given whether \<^verbatim>\<open>picam2\<close> is bound and the pending exception.
  An exception raised inside the clause replaces the pending one.
\<close>

datatype main_end = Returned | Propagated py_exn | Still_running

definition finally_clause :: "world \<Rightarrow> bool \<Rightarrow> py_exn option \<Rightarrow> action list \<times> main_end" where
  "finally_clause w bound pending =
     (if \<not> bound then ([], Propagated (UnboundLocalError ''picam2''))
      else
        (case stop w of
           Raises e \<Rightarrow> ([], Propagated e)
         | Returns u \<Rightarrow>
             (case destroyAllWindows w of
                Raises e \<Rightarrow> ([Camera_stopped], Propagated e)
              | Returns u' \<Rightarrow>
                  ([Camera_stopped, Windows_destroyed],
                   (case pending of None \<Rightarrow> Returned | Some e \<Rightarrow> Propagated e)))))"

definition main :: "world \<Rightarrow> action list \<times> main_end" where
  "main w =
     (let (bound, acts, e) = try_body w
      in if e = Running then (acts, Still_running)
         else (let (acts1, pending) = handlers e;
                   (acts2, r) = finally_clause w bound pending
               in (acts @ acts1 @ acts2, r)))"

section \<open>Properties\<close>

subsection \<open>The loop\<close>

lemma for_loop_append: "for_loop s (xs @ ys) = for_loop (for_loop s xs) ys"
  by (induction xs arbitrary: s) simp_all

lemma row_loop_body: "row (loop_body s d) = Some d"
  by (simp add: loop_body_def Let_def)

lemma row_for_loop: "row (for_loop s ds) = (if ds = [] then row s else Some (last ds))"
proof (induction ds rule: rev_induct)
  case Nil
  show ?case by simp
next
  case (snoc d ds)
  show ?case by (simp add: for_loop_append row_loop_body)
qed

lemma annotated_loop_body:
  "annotated_frame (loop_body s d) = annotated_frame s @ draw_detection d"
  by (simp add: loop_body_def Let_def)

lemma annotated_for_loop:
  "annotated_frame (for_loop s ds) = annotated_frame s @ concat (map draw_detection ds)"
  by (induction ds arbitrary: s) (simp_all add: annotated_loop_body)

lemma t_box_loop_body:
  "t_box (loop_body s d) =
     (if class_name d = ''topTether'' then Some (x1 d, y1 d, x2 d, y2 d) else t_box s)"
  by (simp add: loop_body_def Let_def)

lemma l_box_loop_body:
  "l_box (loop_body s d) =
     (if class_name d = ''logo'' then Some (x1 d, y1 d, x2 d, y2 d) else l_box s)"
  by (auto simp add: loop_body_def Let_def)

lemma t_box_not_detected:
  "\<not> detected ''topTether'' ds \<Longrightarrow> t_box (for_loop s ds) = t_box s"
  by (induction ds arbitrary: s) (simp_all add: detected_def t_box_loop_body)

lemma l_box_not_detected:
  "\<not> detected ''logo'' ds \<Longrightarrow> l_box (for_loop s ds) = l_box s"
  by (induction ds arbitrary: s) (simp_all add: detected_def l_box_loop_body)

lemma t_box_last:
  assumes "class_name d = ''topTether''" and "\<not> detected ''topTether'' later"
  shows "t_box (for_loop s (earlier @ d # later)) = Some (x1 d, y1 d, x2 d, y2 d)"
  using assms by (simp add: for_loop_append t_box_not_detected t_box_loop_body)

lemma l_box_last:
  assumes "class_name d = ''logo''" and "\<not> detected ''logo'' later"
  shows "l_box (for_loop s (earlier @ d # later)) = Some (x1 d, y1 d, x2 d, y2 d)"
  using assms by (simp add: for_loop_append l_box_not_detected l_box_loop_body)

lemma detected_split:
  assumes "detected c ds"
  obtains earlier d later
  where "ds = earlier @ d # later" and "class_name d = c" and "\<not> detected c later"
proof -
  from assms have "\<exists>d \<in> set ds. class_name d = c"
    by (simp add: detected_def)
  then obtain earlier d later
    where "ds = earlier @ d # later" and "class_name d = c"
      and "\<forall>e \<in> set later. class_name e \<noteq> c"
    by (auto dest!: split_list_last_prop)
  then show thesis using that by (simp add: detected_def)
qed

lemma detected_nonempty: "detected c ds \<Longrightarrow> ds \<noteq> []"
  by (auto simp: detected_def)

lemma detected_append: "detected c (xs @ ys) = (detected c xs \<or> detected c ys)"
  by (auto simp: detected_def)

lemma detected_Cons: "detected c (d # ds) = (class_name d = c \<or> detected c ds)"
  by (auto simp: detected_def)

lemma t_box_detected:
  "t_box (for_loop s ds) = None \<longleftrightarrow> t_box s = None \<and> \<not> detected ''topTether'' ds"
proof (cases "detected ''topTether'' ds")
  case True
  then obtain earlier d later
    where "ds = earlier @ d # later" and "class_name d = ''topTether''"
      and "\<not> detected ''topTether'' later"
    by (rule detected_split)
  then show ?thesis using True by (simp add: t_box_last)
next
  case False
  then show ?thesis by (simp add: t_box_not_detected)
qed

lemma l_box_detected:
  "l_box (for_loop s ds) = None \<longleftrightarrow> l_box s = None \<and> \<not> detected ''logo'' ds"
proof (cases "detected ''logo'' ds")
  case True
  then obtain earlier d later
    where "ds = earlier @ d # later" and "class_name d = ''logo''"
      and "\<not> detected ''logo'' later"
    by (rule detected_split)
  then show ?thesis using True by (simp add: l_box_last)
next
  case False
  then show ?thesis by (simp add: l_box_not_detected)
qed

lemma stored_iff_detected:
  "(\<exists>t l. t_box (for_loop (start fr m) ds) = Some t \<and> l_box (for_loop (start fr m) ds) = Some l)
     \<longleftrightarrow> detected ''topTether'' ds \<and> detected ''logo'' ds"
  using t_box_detected [of "start fr m" ds] l_box_detected [of "start fr m" ds]
  by (auto simp: start_def)

subsection \<open>The position block and \<open>process_frame\<close>\<close>

lemma true_divide_zero: "true_divide a 0 = Inl ZeroDivisionError"
  by (simp add: true_divide_def)

lemma true_divide_raises:
  "true_divide a b = Inl e \<Longrightarrow> e = ZeroDivisionError \<or> e = OverflowError"
  by (auto simp: true_divide_def Let_def split: if_splits)

lemma position_eq:
  "position fr m s (a, b, c, d) (e, f, g, h) =
     (case box_quotient (a, b, c, d) (e, f, g, h) of
        Inl x \<Rightarrow> Inl x
      | Inr q \<Rightarrow>
          (case row s of
             None \<Rightarrow> Inl (UnboundLocalError ''x2'')
           | Some r \<Rightarrow>
               Inr \<lparr>annotated = annotated_frame s
                        @ draw_report fr (report_of m (a, b, c, d) (e, f, g, h) q r),
                    printed = Some (report_of m (a, b, c, d) (e, f, g, h) q r)\<rparr>))"
  by (simp add: Let_def report_of_def box_quotient_def split: prod.splits option.splits sum.splits)

text \<open>
  \<open>process_frame\<close> without the loop's variables: when both boxes are stored the loop
  body ran, so reading \<^verbatim>\<open>x2\<close> and \<^verbatim>\<open>class_name\<close> cannot fail and they are those of
  the last row.
\<close>

lemma process_frame_returns:
  "process_frame fr (Returns ds) =
     (let m = shape1 fr div 2; s = for_loop (start fr m) ds in
      (case (t_box s, l_box s) of
         (Some t, Some l) \<Rightarrow>
           (case box_quotient t l of
              Inl x \<Rightarrow> Inl x
            | Inr q \<Rightarrow>
                Inr \<lparr>annotated = annotated_frame s
                         @ draw_report fr (report_of m t l q (last ds)),
                     printed = Some (report_of m t l q (last ds))\<rparr>)
       | _ \<Rightarrow> Inr \<lparr>annotated = annotated_frame s, printed = None\<rparr>))"
proof -
  let ?s = "for_loop (start fr (shape1 fr div 2)) ds"
  show ?thesis
  proof (cases "t_box ?s")
    case None
    then show ?thesis by (simp add: process_frame_def Let_def)
  next
    case (Some t)
    note t = this
    show ?thesis
    proof (cases "l_box ?s")
      case None
      then show ?thesis using t by (simp add: process_frame_def Let_def)
    next
      case (Some l)
      have "detected ''topTether'' ds"
        using t t_box_detected [of "start fr (shape1 fr div 2)" ds] by (auto simp: start_def)
      then have "ds \<noteq> []" by (rule detected_nonempty)
      then have r: "row ?s = Some (last ds)" by (simp add: row_for_loop)
      obtain a b c d where t': "t = (a, b, c, d)" by (cases t) auto
      obtain e f g h where l': "l = (e, f, g, h)" by (cases l) auto
      show ?thesis using t Some r
        by (simp add: process_frame_def Let_def t' l' position_eq del: position.simps
            split: sum.splits)
    qed
  qed
qed

lemma process_frame_raises:
  "process_frame fr (Returns ds) = Inl e \<Longrightarrow> e = ZeroDivisionError \<or> e = OverflowError"
  by (auto simp: process_frame_returns Let_def box_quotient_def
      split: option.splits sum.splits prod.splits dest: true_divide_raises)

lemma printed_report:
  assumes "process_frame fr pr = Inr res" and "printed res = Some r"
  obtains ds t l q
  where "pr = Returns ds" and "ds \<noteq> []"
    and "t_box (for_loop (start fr (shape1 fr div 2)) ds) = Some t"
    and "l_box (for_loop (start fr (shape1 fr div 2)) ds) = Some l"
    and "box_quotient t l = Inr q"
    and "r = report_of (shape1 fr div 2) t l q (last ds)"
proof -
  obtain ds where p: "pr = Returns ds"
    using assms(1) by (cases pr) (simp_all add: process_frame_def)
  let ?s = "for_loop (start fr (shape1 fr div 2)) ds"
  from assms p obtain t l q where tl: "t_box ?s = Some t" "l_box ?s = Some l"
    and q: "box_quotient t l = Inr q"
    and r: "r = report_of (shape1 fr div 2) t l q (last ds)"
    by (auto simp: process_frame_returns Let_def split: option.splits sum.splits)
  from tl(1) have "detected ''topTether'' ds"
    using t_box_detected [of "start fr (shape1 fr div 2)" ds] by (auto simp: start_def)
  then have "ds \<noteq> []" by (rule detected_nonempty)
  with p r q tl show thesis using that by blast
qed

lemma report_of_percentage: "percentage (report_of m t l q x) = float_mul q 100"
  by (simp add: report_of_def Let_def split: prod.splits)

lemma report_of_h_status:
  "h_status (report_of m t l q d) = fst (horizontal (percentage (report_of m t l q d)))"
  by (simp add: report_of_def Let_def split: prod.splits)

lemma report_of_v_status:
  "v_status (report_of m t l q d) = (if x2 d > m then ''Right'' else ''Left'')"
  by (simp add: report_of_def Let_def split: prod.splits)

lemma report_of_logo_status:
  "logo_status (report_of m t l q d) =
     fst (logo (h_status (report_of m t l q d)) (v_status (report_of m t l q d))
            (class_name d))"
  by (simp add: report_of_def Let_def split: prod.splits)

lemma fst_horizontal:
  "fst (horizontal p) =
     (if p < 1 then ''Left of Normal Position''
      else if p > 10 then ''Right of Normal Position'' else ''Normal Position'')"
  by (simp add: horizontal_def)

lemma fst_logo:
  "fst (logo h v c) =
     (if h = ''Normal Position'' \<and> v = ''Right'' \<and> c \<noteq> ''inverted_topTether''
         \<and> c \<noteq> ''inverted_logo''
      then ''NORMAL LOGO'' else ''DEFECTIVE LOGO'')"
  by (simp add: logo_def)

text \<open>The offset percentage of a frame from the boxes the loop has stored.\<close>

lemma offset_percentage_stored:
  assumes "t_box (for_loop (start fr (shape1 fr div 2)) ds) = Some t"
    and "l_box (for_loop (start fr (shape1 fr div 2)) ds) = Some l"
  shows "offset_percentage (process_frame fr (Returns ds)) =
           (case box_quotient t l of Inl e \<Rightarrow> None | Inr q \<Rightarrow> Some (float_mul q 100))"
  using assms
  by (simp add: process_frame_returns Let_def offset_percentage_def report_of_percentage
      split: sum.splits)

text \<open>The four readings of a result come from one report.\<close>

lemma readings:
  assumes "offset_percentage (process_frame fr pr) = Some p"
  obtains ds t l q
  where "pr = Returns ds" and "ds \<noteq> []"
    and "t_box (for_loop (start fr (shape1 fr div 2)) ds) = Some t"
    and "l_box (for_loop (start fr (shape1 fr div 2)) ds) = Some l"
    and "p = percentage (report_of (shape1 fr div 2) t l q (last ds))"
    and "horizontal_status (process_frame fr pr)
           = Some (h_status (report_of (shape1 fr div 2) t l q (last ds)))"
    and "side_status (process_frame fr pr)
           = Some (v_status (report_of (shape1 fr div 2) t l q (last ds)))"
    and "classification (process_frame fr pr)
           = Some (logo_status (report_of (shape1 fr div 2) t l q (last ds)))"
proof -
  from assms obtain res r where res: "process_frame fr pr = Inr res"
    and r: "printed res = Some r" and p: "p = percentage r"
    by (auto simp: offset_percentage_def split: sum.splits)
  from res r obtain ds t l q
    where "pr = Returns ds" and "ds \<noteq> []"
      and "t_box (for_loop (start fr (shape1 fr div 2)) ds) = Some t"
      and "l_box (for_loop (start fr (shape1 fr div 2)) ds) = Some l"
      and "r = report_of (shape1 fr div 2) t l q (last ds)"
    by (rule printed_report)
  then show thesis using that res r p
    by (simp add: horizontal_status_def side_status_def classification_def)
qed

lemma classification_percentage:
  "classification (process_frame fr pr) = Some c
     \<Longrightarrow> \<exists>p. offset_percentage (process_frame fr pr) = Some p"
  by (auto simp: classification_def offset_percentage_def split: sum.splits)

subsection \<open>Claims about \<open>process_frame\<close>\<close>

text \<open>
  C1 (as stated): for frames with both features detected, the NORMAL/DEFECTIVE label is a
  function of the offset percentage alone. It is not: the two frames below (640 wide,
  middle 320) both yield 5 percent, a tether 200 wide with the logo's midpoint 10 to the
  right of the tether's, but the part that lies left of the middle is DEFECTIVE and the
  one right of it is NORMAL.
\<close>

theorem C1_counterexample:
  "offset_percentage (process_frame \<lparr>shape0 = 480, shape1 = 640\<rparr> (Returns
       [\<lparr>x1 = 100, y1 = 50, x2 = 300, y2 = 90, class_name = ''topTether''\<rparr>,
        \<lparr>x1 = 205, y1 = 60, x2 = 215, y2 = 80, class_name = ''logo''\<rparr>])) = Some 5
   \<and> offset_percentage (process_frame \<lparr>shape0 = 480, shape1 = 640\<rparr> (Returns
       [\<lparr>x1 = 400, y1 = 50, x2 = 600, y2 = 90, class_name = ''topTether''\<rparr>,
        \<lparr>x1 = 505, y1 = 60, x2 = 515, y2 = 80, class_name = ''logo''\<rparr>])) = Some 5
   \<and> classification (process_frame \<lparr>shape0 = 480, shape1 = 640\<rparr> (Returns
       [\<lparr>x1 = 100, y1 = 50, x2 = 300, y2 = 90, class_name = ''topTether''\<rparr>,
        \<lparr>x1 = 205, y1 = 60, x2 = 215, y2 = 80, class_name = ''logo''\<rparr>]))
       = Some ''DEFECTIVE LOGO''
   \<and> classification (process_frame \<lparr>shape0 = 480, shape1 = 640\<rparr> (Returns
       [\<lparr>x1 = 400, y1 = 50, x2 = 600, y2 = 90, class_name = ''topTether''\<rparr>,
        \<lparr>x1 = 505, y1 = 60, x2 = 515, y2 = 80, class_name = ''logo''\<rparr>]))
       = Some ''NORMAL LOGO''"
  by code_simp

text \<open>
  C1 (amended): whenever an offset percentage \<open>p\<close> is computed, the label is a function of
  \<open>p\<close> and of two more quantities, both taken from the last row iterated: whether its
  \<^verbatim>\<open>x2\<close> lies right of the image middle, and whether its class name is one of the two
  inverted classes. The label is NORMAL exactly when \<open>1 \<le> p \<le> 10\<close>, \<^verbatim>\<open>x2 > middle_x\<close>
  and the class name is neither \<^verbatim>\<open>inverted_topTether\<close> nor \<^verbatim>\<open>inverted_logo\<close>.
\<close>

theorem C1_classification_inputs:
  assumes "offset_percentage (process_frame fr (Returns ds)) = Some p"
  shows "classification (process_frame fr (Returns ds)) =
           Some (if 1 \<le> p \<and> p \<le> 10 \<and> x2 (last ds) > shape1 fr div 2
                    \<and> class_name (last ds) \<noteq> ''inverted_topTether''
                    \<and> class_name (last ds) \<noteq> ''inverted_logo''
                 then ''NORMAL LOGO'' else ''DEFECTIVE LOGO'')"
proof -
  from assms obtain ds' t l q
    where eq: "Returns ds = Returns ds'"
      and p: "p = percentage (report_of (shape1 fr div 2) t l q (last ds'))"
      and c: "classification (process_frame fr (Returns ds))
                = Some (logo_status (report_of (shape1 fr div 2) t l q (last ds')))"
    by (rule readings)
  from eq have ds: "ds' = ds" by simp
  let ?r = "report_of (shape1 fr div 2) t l q (last ds)"
  have h: "(h_status ?r = ''Normal Position'') = (1 \<le> p \<and> p \<le> 10)"
    unfolding report_of_h_status fst_horizontal p ds by auto
  have v: "(v_status ?r = ''Right'') = (x2 (last ds) > shape1 fr div 2)"
    unfolding report_of_v_status by simp
  have "logo_status ?r =
          (if 1 \<le> p \<and> p \<le> 10 \<and> x2 (last ds) > shape1 fr div 2
              \<and> class_name (last ds) \<noteq> ''inverted_topTether''
              \<and> class_name (last ds) \<noteq> ''inverted_logo''
           then ''NORMAL LOGO'' else ''DEFECTIVE LOGO'')"
    unfolding report_of_logo_status fst_logo h v by simp
  with c ds show ?thesis by simp
qed

theorem C1_classification_inputs_witness:
  "offset_percentage (process_frame \<lparr>shape0 = 480, shape1 = 640\<rparr> (Returns
       [\<lparr>x1 = 400, y1 = 50, x2 = 600, y2 = 90, class_name = ''topTether''\<rparr>,
        \<lparr>x1 = 505, y1 = 60, x2 = 515, y2 = 80, class_name = ''logo''\<rparr>])) = Some 5
   \<and> classification (process_frame \<lparr>shape0 = 480, shape1 = 640\<rparr> (Returns
       [\<lparr>x1 = 400, y1 = 50, x2 = 600, y2 = 90, class_name = ''topTether''\<rparr>,
        \<lparr>x1 = 505, y1 = 60, x2 = 515, y2 = 80, class_name = ''logo''\<rparr>]))
       = Some ''NORMAL LOGO''"
proof -
  have h: "offset_percentage (process_frame \<lparr>shape0 = 480, shape1 = 640\<rparr> (Returns
       [\<lparr>x1 = 400, y1 = 50, x2 = 600, y2 = 90, class_name = ''topTether''\<rparr>,
        \<lparr>x1 = 505, y1 = 60, x2 = 515, y2 = 80, class_name = ''logo''\<rparr>])) = Some 5"
    by code_simp
  show ?thesis using h C1_classification_inputs [OF h] by simp
qed

text \<open>
  C2: for every frame in which both \<^verbatim>\<open>topTether\<close> and \<^verbatim>\<open>logo\<close> are detected there are a
  row of each class such that the offset percentage is
  \<^verbatim>\<open>(l_mid_x - t_mid_x) / width_t * 100\<close> in Python's arithmetic, with the integer midpoints
  \<open>(x1 + x2) div 2\<close> of the two rows and \<open>width_t = x2 - x1\<close> of the tether row: the
  quotient of the two integers as a float, times 100. When the division raises, no
  percentage is computed (see C9).
\<close>

theorem C2_offset_percentage:
  assumes "detected ''topTether'' ds" and "detected ''logo'' ds"
  shows "\<exists>dt \<in> set ds. \<exists>dl \<in> set ds.
           class_name dt = ''topTether'' \<and> class_name dl = ''logo''
         \<and> offset_percentage (process_frame fr (Returns ds)) =
             (case true_divide ((x1 dl + x2 dl) div 2 - (x1 dt + x2 dt) div 2)
                               (x2 dt - x1 dt) of
                Inl e \<Rightarrow> None
              | Inr q \<Rightarrow> Some (float_mul q 100))"
proof -
  let ?s = "for_loop (start fr (shape1 fr div 2)) ds"
  from assms(1) obtain earlier_t dt later_t
    where dt: "ds = earlier_t @ dt # later_t" "class_name dt = ''topTether''"
      "\<not> detected ''topTether'' later_t"
    by (rule detected_split)
  from assms(2) obtain earlier_l dl later_l
    where dl: "ds = earlier_l @ dl # later_l" "class_name dl = ''logo''"
      "\<not> detected ''logo'' later_l"
    by (rule detected_split)
  have t: "t_box ?s = Some (x1 dt, y1 dt, x2 dt, y2 dt)"
    unfolding dt(1) using dt(2,3) by (rule t_box_last)
  have l: "l_box ?s = Some (x1 dl, y1 dl, x2 dl, y2 dl)"
    unfolding dl(1) using dl(2,3) by (rule l_box_last)
  have "offset_percentage (process_frame fr (Returns ds)) =
             (case true_divide ((x1 dl + x2 dl) div 2 - (x1 dt + x2 dt) div 2)
                               (x2 dt - x1 dt) of
                Inl e \<Rightarrow> None
              | Inr q \<Rightarrow> Some (float_mul q 100))"
    using offset_percentage_stored [OF t l] by (simp add: box_quotient_def)
  moreover have "dt \<in> set ds"
    using dt(1) by simp
  moreover have "dl \<in> set ds"
    using dl(1) by simp
  ultimately show ?thesis using dt(2) dl(2) by blast
qed

text \<open>
  The frames of the witness, with what Python computes for each:
  \<^verbatim>\<open>2 / 199 * 100\<close> is \<^verbatim>\<open>1.0050251256281406\<close>, the double \<open>282889423829805 / 2 ^ 48\<close>
  (the exact value of the formula, \<open>200 / 199\<close>, is not a double);
  \<^verbatim>\<open>5 / 59 * 100\<close> is \<^verbatim>\<open>8.47457627118644\<close> and \<^verbatim>\<open>39 / 61 * 100\<close> is
  \<^verbatim>\<open>63.934426229508205\<close>, two products that lie halfway between two doubles, the
  even one below in the first and above in the second;
  \<^verbatim>\<open>-2 / 199 * 100\<close> is \<^verbatim>\<open>-1.0050251256281406\<close>.
\<close>

theorem C2_offset_percentage_witness:
  "offset_percentage (process_frame \<lparr>shape0 = 480, shape1 = 640\<rparr> (Returns
       [\<lparr>x1 = 190, y1 = 60, x2 = 215, y2 = 80, class_name = ''logo''\<rparr>,
        \<lparr>x1 = 101, y1 = 50, x2 = 300, y2 = 90, class_name = ''topTether''\<rparr>]))
     = Some (282889423829805 / 281474976710656)
   \<and> offset_percentage (process_frame \<lparr>shape0 = 480, shape1 = 640\<rparr> (Returns
       [\<lparr>x1 = 100, y1 = 50, x2 = 159, y2 = 90, class_name = ''topTether''\<rparr>,
        \<lparr>x1 = 130, y1 = 60, x2 = 138, y2 = 80, class_name = ''logo''\<rparr>]))
     = Some (2385381158564881 / 281474976710656)
   \<and> offset_percentage (process_frame \<lparr>shape0 = 480, shape1 = 640\<rparr> (Returns
       [\<lparr>x1 = 100, y1 = 50, x2 = 161, y2 = 90, class_name = ''topTether''\<rparr>,
        \<lparr>x1 = 165, y1 = 60, x2 = 173, y2 = 80, class_name = ''logo''\<rparr>]))
     = Some (2249492641744997 / 35184372088832)
   \<and> offset_percentage (process_frame \<lparr>shape0 = 480, shape1 = 640\<rparr> (Returns
       [\<lparr>x1 = 101, y1 = 50, x2 = 300, y2 = 90, class_name = ''topTether''\<rparr>,
        \<lparr>x1 = 186, y1 = 60, x2 = 211, y2 = 80, class_name = ''logo''\<rparr>]))
     = Some (- (282889423829805 / 281474976710656))"
proof -
  have t: "detected ''topTether''
       [\<lparr>x1 = 190, y1 = 60, x2 = 215, y2 = 80, class_name = ''logo''\<rparr>,
        \<lparr>x1 = 101, y1 = 50, x2 = 300, y2 = 90, class_name = ''topTether''\<rparr>]"
    by (simp add: detected_def)
  have l: "detected ''logo''
       [\<lparr>x1 = 190, y1 = 60, x2 = 215, y2 = 80, class_name = ''logo''\<rparr>,
        \<lparr>x1 = 101, y1 = 50, x2 = 300, y2 = 90, class_name = ''topTether''\<rparr>]"
    by (simp add: detected_def)
  have v: "(case true_divide 2 199 of Inl e \<Rightarrow> None | Inr q \<Rightarrow> Some (float_mul q 100))
             = Some (282889423829805 / 281474976710656)"
    by code_simp
  from C2_offset_percentage [OF t l, of "\<lparr>shape0 = 480, shape1 = 640\<rparr>"]
  have "offset_percentage (process_frame \<lparr>shape0 = 480, shape1 = 640\<rparr> (Returns
       [\<lparr>x1 = 190, y1 = 60, x2 = 215, y2 = 80, class_name = ''logo''\<rparr>,
        \<lparr>x1 = 101, y1 = 50, x2 = 300, y2 = 90, class_name = ''topTether''\<rparr>]))
     = (case true_divide 2 199 of Inl e \<Rightarrow> None | Inr q \<Rightarrow> Some (float_mul q 100))"
    by simp
  with v have a: "offset_percentage (process_frame \<lparr>shape0 = 480, shape1 = 640\<rparr> (Returns
       [\<lparr>x1 = 190, y1 = 60, x2 = 215, y2 = 80, class_name = ''logo''\<rparr>,
        \<lparr>x1 = 101, y1 = 50, x2 = 300, y2 = 90, class_name = ''topTether''\<rparr>]))
     = Some (282889423829805 / 281474976710656)"
    by simp
  have t: "detected ''topTether''
       [\<lparr>x1 = 100, y1 = 50, x2 = 159, y2 = 90, class_name = ''topTether''\<rparr>,
        \<lparr>x1 = 130, y1 = 60, x2 = 138, y2 = 80, class_name = ''logo''\<rparr>]"
    by (simp add: detected_def)
  have l: "detected ''logo''
       [\<lparr>x1 = 100, y1 = 50, x2 = 159, y2 = 90, class_name = ''topTether''\<rparr>,
        \<lparr>x1 = 130, y1 = 60, x2 = 138, y2 = 80, class_name = ''logo''\<rparr>]"
    by (simp add: detected_def)
  have v: "(case true_divide 5 59 of Inl e \<Rightarrow> None | Inr q \<Rightarrow> Some (float_mul q 100))
             = Some (2385381158564881 / 281474976710656)"
    by code_simp
  from C2_offset_percentage [OF t l, of "\<lparr>shape0 = 480, shape1 = 640\<rparr>"]
  have "offset_percentage (process_frame \<lparr>shape0 = 480, shape1 = 640\<rparr> (Returns
       [\<lparr>x1 = 100, y1 = 50, x2 = 159, y2 = 90, class_name = ''topTether''\<rparr>,
        \<lparr>x1 = 130, y1 = 60, x2 = 138, y2 = 80, class_name = ''logo''\<rparr>]))
     = (case true_divide 5 59 of Inl e \<Rightarrow> None | Inr q \<Rightarrow> Some (float_mul q 100))"
    by simp
  with v have b: "offset_percentage (process_frame \<lparr>shape0 = 480, shape1 = 640\<rparr> (Returns
       [\<lparr>x1 = 100, y1 = 50, x2 = 159, y2 = 90, class_name = ''topTether''\<rparr>,
        \<lparr>x1 = 130, y1 = 60, x2 = 138, y2 = 80, class_name = ''logo''\<rparr>]))
     = Some (2385381158564881 / 281474976710656)"
    by simp
  have t: "detected ''topTether''
       [\<lparr>x1 = 100, y1 = 50, x2 = 161, y2 = 90, class_name = ''topTether''\<rparr>,
        \<lparr>x1 = 165, y1 = 60, x2 = 173, y2 = 80, class_name = ''logo''\<rparr>]"
    by (simp add: detected_def)
  have l: "detected ''logo''
       [\<lparr>x1 = 100, y1 = 50, x2 = 161, y2 = 90, class_name = ''topTether''\<rparr>,
        \<lparr>x1 = 165, y1 = 60, x2 = 173, y2 = 80, class_name = ''logo''\<rparr>]"
    by (simp add: detected_def)
  have v: "(case true_divide 39 61 of Inl e \<Rightarrow> None | Inr q \<Rightarrow> Some (float_mul q 100))
             = Some (2249492641744997 / 35184372088832)"
    by code_simp
  from C2_offset_percentage [OF t l, of "\<lparr>shape0 = 480, shape1 = 640\<rparr>"]
  have "offset_percentage (process_frame \<lparr>shape0 = 480, shape1 = 640\<rparr> (Returns
       [\<lparr>x1 = 100, y1 = 50, x2 = 161, y2 = 90, class_name = ''topTether''\<rparr>,
        \<lparr>x1 = 165, y1 = 60, x2 = 173, y2 = 80, class_name = ''logo''\<rparr>]))
     = (case true_divide 39 61 of Inl e \<Rightarrow> None | Inr q \<Rightarrow> Some (float_mul q 100))"
    by simp
  with v have c: "offset_percentage (process_frame \<lparr>shape0 = 480, shape1 = 640\<rparr> (Returns
       [\<lparr>x1 = 100, y1 = 50, x2 = 161, y2 = 90, class_name = ''topTether''\<rparr>,
        \<lparr>x1 = 165, y1 = 60, x2 = 173, y2 = 80, class_name = ''logo''\<rparr>]))
     = Some (2249492641744997 / 35184372088832)"
    by simp
  have t: "detected ''topTether''
       [\<lparr>x1 = 101, y1 = 50, x2 = 300, y2 = 90, class_name = ''topTether''\<rparr>,
        \<lparr>x1 = 186, y1 = 60, x2 = 211, y2 = 80, class_name = ''logo''\<rparr>]"
    by (simp add: detected_def)
  have l: "detected ''logo''
       [\<lparr>x1 = 101, y1 = 50, x2 = 300, y2 = 90, class_name = ''topTether''\<rparr>,
        \<lparr>x1 = 186, y1 = 60, x2 = 211, y2 = 80, class_name = ''logo''\<rparr>]"
    by (simp add: detected_def)
  have v: "(case true_divide (- 2) 199 of Inl e \<Rightarrow> None | Inr q \<Rightarrow> Some (float_mul q 100))
             = Some (- (282889423829805 / 281474976710656))"
    by code_simp
  from C2_offset_percentage [OF t l, of "\<lparr>shape0 = 480, shape1 = 640\<rparr>"]
  have "offset_percentage (process_frame \<lparr>shape0 = 480, shape1 = 640\<rparr> (Returns
       [\<lparr>x1 = 101, y1 = 50, x2 = 300, y2 = 90, class_name = ''topTether''\<rparr>,
        \<lparr>x1 = 186, y1 = 60, x2 = 211, y2 = 80, class_name = ''logo''\<rparr>]))
     = (case true_divide (- 2) 199 of Inl e \<Rightarrow> None | Inr q \<Rightarrow> Some (float_mul q 100))"
    by simp
  with v have d: "offset_percentage (process_frame \<lparr>shape0 = 480, shape1 = 640\<rparr> (Returns
       [\<lparr>x1 = 101, y1 = 50, x2 = 300, y2 = 90, class_name = ''topTether''\<rparr>,
        \<lparr>x1 = 186, y1 = 60, x2 = 211, y2 = 80, class_name = ''logo''\<rparr>]))
     = Some (- (282889423829805 / 281474976710656))"
    by simp
  from a b c d show ?thesis by (simp only: simp_thms)
qed

text \<open>
  C5: for every computed offset percentage \<open>p\<close> the horizontal status is
  \<^verbatim>\<open>Left of Normal Position\<close> if \<open>p < 1\<close>, \<^verbatim>\<open>Right of Normal Position\<close> if \<open>p > 10\<close> and
  \<^verbatim>\<open>Normal Position\<close> otherwise, that is when \<open>1 \<le> p \<le> 10\<close>; each label is assigned
  in its own case only, so exactly one of them is.
\<close>

theorem C5_horizontal_status:
  assumes "offset_percentage (process_frame fr pr) = Some p"
  shows "horizontal_status (process_frame fr pr) =
           Some (if p < 1 then ''Left of Normal Position''
                 else if p > 10 then ''Right of Normal Position''
                 else ''Normal Position'')
       \<and> (horizontal_status (process_frame fr pr) = Some ''Left of Normal Position'')
           = (p < 1)
       \<and> (horizontal_status (process_frame fr pr) = Some ''Right of Normal Position'')
           = (p > 10)
       \<and> (horizontal_status (process_frame fr pr) = Some ''Normal Position'')
           = (1 \<le> p \<and> p \<le> 10)"
proof -
  from assms obtain ds t l q
    where p: "p = percentage (report_of (shape1 fr div 2) t l q (last ds))"
      and h: "horizontal_status (process_frame fr pr)
                = Some (h_status (report_of (shape1 fr div 2) t l q (last ds)))"
    by (rule readings)
  have "horizontal_status (process_frame fr pr) =
           Some (if p < 1 then ''Left of Normal Position''
                 else if p > 10 then ''Right of Normal Position''
                 else ''Normal Position'')"
    unfolding h report_of_h_status fst_horizontal p by simp
  then show ?thesis by auto
qed

theorem C5_horizontal_status_witness:
  "offset_percentage (process_frame \<lparr>shape0 = 480, shape1 = 640\<rparr> (Returns
       [\<lparr>x1 = 100, y1 = 50, x2 = 300, y2 = 90, class_name = ''topTether''\<rparr>,
        \<lparr>x1 = 225, y1 = 60, x2 = 235, y2 = 80, class_name = ''logo''\<rparr>])) = Some 15
   \<and> horizontal_status (process_frame \<lparr>shape0 = 480, shape1 = 640\<rparr> (Returns
       [\<lparr>x1 = 100, y1 = 50, x2 = 300, y2 = 90, class_name = ''topTether''\<rparr>,
        \<lparr>x1 = 225, y1 = 60, x2 = 235, y2 = 80, class_name = ''logo''\<rparr>]))
       = Some ''Right of Normal Position''"
proof -
  have h: "offset_percentage (process_frame \<lparr>shape0 = 480, shape1 = 640\<rparr> (Returns
       [\<lparr>x1 = 100, y1 = 50, x2 = 300, y2 = 90, class_name = ''topTether''\<rparr>,
        \<lparr>x1 = 225, y1 = 60, x2 = 235, y2 = 80, class_name = ''logo''\<rparr>])) = Some 15"
    by code_simp
  show ?thesis using h C5_horizontal_status [OF h] by simp
qed

text \<open>
  C6: when at least one of \<^verbatim>\<open>topTether\<close> and \<^verbatim>\<open>logo\<close> is not detected,
  \<open>process_frame\<close> returns: the annotated frame is the middle line followed, for every
  row in order and whatever its class, by the rectangle of its box, its two corner
  texts, the point at its midpoint and the text of that point; every detected box is
  among the drawings, and neither an offset percentage nor a status is computed.
\<close>

theorem C6_missing_feature:
  assumes "\<not> detected ''topTether'' ds \<or> \<not> detected ''logo'' ds"
  shows "process_frame fr (Returns ds) =
           Inr \<lparr>annotated =
                  Line (shape1 fr div 2, 0) (shape1 fr div 2, shape0 fr) (255, 0, 0) 1
                    # concat (map (\<lambda>d.
                        [Rectangle (x1 d, y1 d) (x2 d, y2 d) (0, 255, 0) 2,
                         PutText (Corner (x1 d) (y1 d)) (x1 d, y1 d - 30) (1 / 2)
                           (0, 255, 0) 2,
                         PutText (Corner (x2 d) (y2 d)) (x2 d, y2 d + 10) (1 / 2)
                           (0, 255, 0) 2,
                         Circle ((x1 d + x2 d) div 2, y1 d) 3 (0, 0, 255) (- 1),
                         PutText (Mid ((x1 d + x2 d) div 2) (y1 d))
                           ((x1 d + x2 d) div 2, y1 d - 10) (1 / 2) (0, 0, 255) 2]) ds),
                printed = None\<rparr>
       \<and> (\<forall>d \<in> set ds. \<exists>res. process_frame fr (Returns ds) = Inr res
             \<and> Rectangle (x1 d, y1 d) (x2 d, y2 d) (0, 255, 0) 2 \<in> set (annotated res))
       \<and> offset_percentage (process_frame fr (Returns ds)) = None
       \<and> horizontal_status (process_frame fr (Returns ds)) = None
       \<and> side_status (process_frame fr (Returns ds)) = None
       \<and> classification (process_frame fr (Returns ds)) = None"
proof -
  let ?s = "for_loop (start fr (shape1 fr div 2)) ds"
  let ?drawn = "\<lambda>d.
       [Rectangle (x1 d, y1 d) (x2 d, y2 d) (0, 255, 0) 2,
        PutText (Corner (x1 d) (y1 d)) (x1 d, y1 d - 30) (1 / 2) (0, 255, 0) 2,
        PutText (Corner (x2 d) (y2 d)) (x2 d, y2 d + 10) (1 / 2) (0, 255, 0) 2,
        Circle ((x1 d + x2 d) div 2, y1 d) 3 (0, 0, 255) (- 1),
        PutText (Mid ((x1 d + x2 d) div 2) (y1 d))
          ((x1 d + x2 d) div 2, y1 d - 10) (1 / 2) (0, 0, 255) 2]"
  from assms have "t_box ?s = None \<or> l_box ?s = None"
    by (auto simp: t_box_detected l_box_detected start_def)
  then have "process_frame fr (Returns ds) =
               Inr \<lparr>annotated = annotated_frame ?s, printed = None\<rparr>"
    by (auto simp: process_frame_returns Let_def split: option.splits)
  moreover have "draw_detection = ?drawn"
    by (rule ext) (simp add: draw_detection_def Let_def)
  then have "annotated_frame ?s =
      Line (shape1 fr div 2, 0) (shape1 fr div 2, shape0 fr) (255, 0, 0) 1
        # concat (map ?drawn ds)"
    by (simp add: annotated_for_loop start_def)
  ultimately have res: "process_frame fr (Returns ds) =
      Inr \<lparr>annotated =
             Line (shape1 fr div 2, 0) (shape1 fr div 2, shape0 fr) (255, 0, 0) 1
               # concat (map ?drawn ds),
           printed = None\<rparr>"
    by simp
  have "Rectangle (x1 d, y1 d) (x2 d, y2 d) (0, 255, 0) 2
          \<in> set (Line (shape1 fr div 2, 0) (shape1 fr div 2, shape0 fr) (255, 0, 0) 1
                   # concat (map ?drawn ds))"
    if "d \<in> set ds" for d
    using that by auto
  with res show ?thesis
    by (simp add: offset_percentage_def horizontal_status_def side_status_def
        classification_def)
qed

theorem C6_missing_feature_witness:
  "process_frame \<lparr>shape0 = 480, shape1 = 640\<rparr> (Returns
       [\<lparr>x1 = 505, y1 = 60, x2 = 515, y2 = 80, class_name = ''logo''\<rparr>,
        \<lparr>x1 = 10, y1 = 300, x2 = 61, y2 = 340, class_name = ''sticker''\<rparr>])
     = Inr \<lparr>annotated =
              [Line (320, 0) (320, 480) (255, 0, 0) 1,
               Rectangle (505, 60) (515, 80) (0, 255, 0) 2,
               PutText (Corner 505 60) (505, 30) (1 / 2) (0, 255, 0) 2,
               PutText (Corner 515 80) (515, 90) (1 / 2) (0, 255, 0) 2,
               Circle (510, 60) 3 (0, 0, 255) (- 1),
               PutText (Mid 510 60) (510, 50) (1 / 2) (0, 0, 255) 2,
               Rectangle (10, 300) (61, 340) (0, 255, 0) 2,
               PutText (Corner 10 300) (10, 270) (1 / 2) (0, 255, 0) 2,
               PutText (Corner 61 340) (61, 350) (1 / 2) (0, 255, 0) 2,
               Circle (35, 300) 3 (0, 0, 255) (- 1),
               PutText (Mid 35 300) (35, 290) (1 / 2) (0, 0, 255) 2],
            printed = None\<rparr>"
proof -
  have h: "\<not> detected ''topTether''
               [\<lparr>x1 = 505, y1 = 60, x2 = 515, y2 = 80, class_name = ''logo''\<rparr>,
                \<lparr>x1 = 10, y1 = 300, x2 = 61, y2 = 340, class_name = ''sticker''\<rparr>]
         \<or> \<not> detected ''logo''
               [\<lparr>x1 = 505, y1 = 60, x2 = 515, y2 = 80, class_name = ''logo''\<rparr>,
                \<lparr>x1 = 10, y1 = 300, x2 = 61, y2 = 340, class_name = ''sticker''\<rparr>]"
    by (simp add: detected_def)
  show ?thesis
    using C6_missing_feature [OF h, of "\<lparr>shape0 = 480, shape1 = 640\<rparr>"]
    by simp
qed

text \<open>
  C7: whenever a classification is produced, it is exactly one of the two labels. The
  strings of the code are \<^verbatim>\<open>NORMAL LOGO\<close> and \<^verbatim>\<open>DEFECTIVE LOGO\<close>.
\<close>

theorem C7_two_labels:
  assumes "classification (process_frame fr pr) = Some c"
  shows "(c = ''NORMAL LOGO'' \<or> c = ''DEFECTIVE LOGO'')
       \<and> \<not> (c = ''NORMAL LOGO'' \<and> c = ''DEFECTIVE LOGO'')"
proof -
  from assms obtain p where "offset_percentage (process_frame fr pr) = Some p"
    using classification_percentage by blast
  then obtain ds t l q
    where "classification (process_frame fr pr)
             = Some (logo_status (report_of (shape1 fr div 2) t l q (last ds)))"
    by (rule readings)
  with assms have "c = logo_status (report_of (shape1 fr div 2) t l q (last ds))"
    by simp
  then show ?thesis by (simp add: report_of_logo_status fst_logo)
qed

theorem C7_two_labels_witness:
  "classification (process_frame \<lparr>shape0 = 480, shape1 = 640\<rparr> (Returns
       [\<lparr>x1 = 405, y1 = 60, x2 = 415, y2 = 80, class_name = ''logo''\<rparr>,
        \<lparr>x1 = 400, y1 = 50, x2 = 600, y2 = 90, class_name = ''topTether''\<rparr>]))
     = Some ''DEFECTIVE LOGO''
   \<and> ''DEFECTIVE LOGO'' \<noteq> ''NORMAL LOGO''"
proof -
  have h: "classification (process_frame \<lparr>shape0 = 480, shape1 = 640\<rparr> (Returns
       [\<lparr>x1 = 405, y1 = 60, x2 = 415, y2 = 80, class_name = ''logo''\<rparr>,
        \<lparr>x1 = 400, y1 = 50, x2 = 600, y2 = 90, class_name = ''topTether''\<rparr>]))
     = Some ''DEFECTIVE LOGO''"
    by code_simp
  show ?thesis using h C7_two_labels [OF h] by simp
qed

text \<open>
  C8: the side status and the inverted-class check of the final decision come from the
  last row iterated, whatever its class: the side status is \<^verbatim>\<open>Right\<close> when that row's
  \<^verbatim>\<open>x2\<close> is greater than the image middle and \<^verbatim>\<open>Left\<close> otherwise, and the label is
  NORMAL exactly when the horizontal status is \<^verbatim>\<open>Normal Position\<close>, that \<^verbatim>\<open>x2\<close> is
  right of the middle and that row's class name is neither inverted class.
\<close>

theorem C8_last_detection:
  assumes "classification (process_frame fr (Returns ds)) = Some c"
  shows "ds \<noteq> []
       \<and> side_status (process_frame fr (Returns ds)) =
           Some (if x2 (last ds) > shape1 fr div 2 then ''Right'' else ''Left'')
       \<and> (c = ''NORMAL LOGO'') =
           (horizontal_status (process_frame fr (Returns ds)) = Some ''Normal Position''
            \<and> side_status (process_frame fr (Returns ds)) = Some ''Right''
            \<and> class_name (last ds) \<noteq> ''inverted_topTether''
            \<and> class_name (last ds) \<noteq> ''inverted_logo'')"
proof -
  from assms obtain p where "offset_percentage (process_frame fr (Returns ds)) = Some p"
    using classification_percentage by blast
  then obtain ds' t l q
    where eq: "Returns ds = Returns ds'" and ne: "ds' \<noteq> []"
      and h: "horizontal_status (process_frame fr (Returns ds))
                = Some (h_status (report_of (shape1 fr div 2) t l q (last ds')))"
      and v: "side_status (process_frame fr (Returns ds))
                = Some (v_status (report_of (shape1 fr div 2) t l q (last ds')))"
      and c: "classification (process_frame fr (Returns ds))
                = Some (logo_status (report_of (shape1 fr div 2) t l q (last ds')))"
    by (rule readings)
  from eq have ds: "ds' = ds" by simp
  let ?r = "report_of (shape1 fr div 2) t l q (last ds)"
  from assms c ds have c': "c = logo_status ?r" by simp
  have "(c = ''NORMAL LOGO'') =
          (h_status ?r = ''Normal Position'' \<and> v_status ?r = ''Right''
           \<and> class_name (last ds) \<noteq> ''inverted_topTether''
           \<and> class_name (last ds) \<noteq> ''inverted_logo'')"
    unfolding c' by (subst report_of_logo_status) (simp add: fst_logo)
  moreover have "side_status (process_frame fr (Returns ds)) =
           Some (if x2 (last ds) > shape1 fr div 2 then ''Right'' else ''Left'')"
    using v ds by (simp add: report_of_v_status)
  ultimately show ?thesis using ne ds h v by simp
qed

theorem C8_last_detection_witness:
  "classification (process_frame \<lparr>shape0 = 480, shape1 = 640\<rparr> (Returns
       [\<lparr>x1 = 400, y1 = 50, x2 = 600, y2 = 90, class_name = ''topTether''\<rparr>,
        \<lparr>x1 = 505, y1 = 60, x2 = 515, y2 = 80, class_name = ''logo''\<rparr>,
        \<lparr>x1 = 10, y1 = 300, x2 = 60, y2 = 340, class_name = ''sticker''\<rparr>]))
     = Some ''DEFECTIVE LOGO''
   \<and> horizontal_status (process_frame \<lparr>shape0 = 480, shape1 = 640\<rparr> (Returns
       [\<lparr>x1 = 400, y1 = 50, x2 = 600, y2 = 90, class_name = ''topTether''\<rparr>,
        \<lparr>x1 = 505, y1 = 60, x2 = 515, y2 = 80, class_name = ''logo''\<rparr>,
        \<lparr>x1 = 10, y1 = 300, x2 = 60, y2 = 340, class_name = ''sticker''\<rparr>]))
     = Some ''Normal Position''
   \<and> side_status (process_frame \<lparr>shape0 = 480, shape1 = 640\<rparr> (Returns
       [\<lparr>x1 = 400, y1 = 50, x2 = 600, y2 = 90, class_name = ''topTether''\<rparr>,
        \<lparr>x1 = 505, y1 = 60, x2 = 515, y2 = 80, class_name = ''logo''\<rparr>,
        \<lparr>x1 = 10, y1 = 300, x2 = 60, y2 = 340, class_name = ''sticker''\<rparr>]))
     = Some ''Left''"
proof -
  have h: "classification (process_frame \<lparr>shape0 = 480, shape1 = 640\<rparr> (Returns
       [\<lparr>x1 = 400, y1 = 50, x2 = 600, y2 = 90, class_name = ''topTether''\<rparr>,
        \<lparr>x1 = 505, y1 = 60, x2 = 515, y2 = 80, class_name = ''logo''\<rparr>,
        \<lparr>x1 = 10, y1 = 300, x2 = 60, y2 = 340, class_name = ''sticker''\<rparr>]))
     = Some ''DEFECTIVE LOGO''"
    by code_simp
  have n: "horizontal_status (process_frame \<lparr>shape0 = 480, shape1 = 640\<rparr> (Returns
       [\<lparr>x1 = 400, y1 = 50, x2 = 600, y2 = 90, class_name = ''topTether''\<rparr>,
        \<lparr>x1 = 505, y1 = 60, x2 = 515, y2 = 80, class_name = ''logo''\<rparr>,
        \<lparr>x1 = 10, y1 = 300, x2 = 60, y2 = 340, class_name = ''sticker''\<rparr>]))
     = Some ''Normal Position''"
    by code_simp
  show ?thesis using h n C8_last_detection [OF h] by simp
qed

text \<open>
  C9: the division by the tether width is unguarded. Whenever the box stored for
  \<^verbatim>\<open>topTether\<close>, the last one of that class, has \<^verbatim>\<open>x1 = x2\<close> and a logo is detected,
  \<open>process_frame\<close> raises \<^verbatim>\<open>ZeroDivisionError\<close> and returns no frame; the witness gives
  such a detection result.
\<close>

theorem C9_zero_width:
  assumes "class_name d = ''topTether''" and "\<not> detected ''topTether'' later"
    and "x1 d = x2 d" and "detected ''logo'' (earlier @ d # later)"
  shows "process_frame fr (Returns (earlier @ d # later)) = Inl ZeroDivisionError"
proof -
  let ?s = "for_loop (start fr (shape1 fr div 2)) (earlier @ d # later)"
  have t: "t_box ?s = Some (x1 d, y1 d, x2 d, y2 d)"
    using assms(1,2) by (rule t_box_last)
  from assms(4) obtain l where l: "l_box ?s = Some l"
    using l_box_detected [of "start fr (shape1 fr div 2)" "earlier @ d # later"] by auto
  obtain e f g h where l': "l = (e, f, g, h)" by (cases l) auto
  show ?thesis
    unfolding process_frame_returns using t l assms(3)
    by (simp add: Let_def l' box_quotient_def true_divide_zero)
qed

theorem C9_zero_width_witness:
  "detected ''topTether''
       [\<lparr>x1 = 505, y1 = 60, x2 = 515, y2 = 80, class_name = ''logo''\<rparr>,
        \<lparr>x1 = 400, y1 = 50, x2 = 400, y2 = 90, class_name = ''topTether''\<rparr>]
   \<and> detected ''logo''
       [\<lparr>x1 = 505, y1 = 60, x2 = 515, y2 = 80, class_name = ''logo''\<rparr>,
        \<lparr>x1 = 400, y1 = 50, x2 = 400, y2 = 90, class_name = ''topTether''\<rparr>]
   \<and> process_frame \<lparr>shape0 = 480, shape1 = 640\<rparr> (Returns
       [\<lparr>x1 = 505, y1 = 60, x2 = 515, y2 = 80, class_name = ''logo''\<rparr>,
        \<lparr>x1 = 400, y1 = 50, x2 = 400, y2 = 90, class_name = ''topTether''\<rparr>])
     = Inl ZeroDivisionError"
proof -
  have "process_frame \<lparr>shape0 = 480, shape1 = 640\<rparr> (Returns
       ([\<lparr>x1 = 505, y1 = 60, x2 = 515, y2 = 80, class_name = ''logo''\<rparr>]
        @ \<lparr>x1 = 400, y1 = 50, x2 = 400, y2 = 90, class_name = ''topTether''\<rparr> # []))
     = Inl ZeroDivisionError"
    by (rule C9_zero_width) (simp_all add: detected_def)
  then show ?thesis by (simp add: detected_def)
qed

text \<open>
  C10: when a class occurs several times among the rows, the box stored for it is that
  of its last row in iteration order, whatever the earlier rows and whatever was stored
  before; the midpoints, the width and the offset percentage are computed from these
  last rows.
\<close>

theorem C10_last_of_class:
  assumes "ds = earlier_t @ dt # later_t"
    and "class_name dt = ''topTether''" and "\<not> detected ''topTether'' later_t"
    and "ds = earlier_l @ dl # later_l"
    and "class_name dl = ''logo''" and "\<not> detected ''logo'' later_l"
  shows "t_box (for_loop s ds) = Some (x1 dt, y1 dt, x2 dt, y2 dt)
       \<and> l_box (for_loop s ds) = Some (x1 dl, y1 dl, x2 dl, y2 dl)
       \<and> offset_percentage (process_frame fr (Returns ds)) =
           (case true_divide ((x1 dl + x2 dl) div 2 - (x1 dt + x2 dt) div 2)
                             (x2 dt - x1 dt) of
              Inl e \<Rightarrow> None
            | Inr q \<Rightarrow> Some (float_mul q 100))"
proof -
  have t: "t_box (for_loop s' ds) = Some (x1 dt, y1 dt, x2 dt, y2 dt)" for s'
    unfolding assms(1) using assms(2,3) by (rule t_box_last)
  have l: "l_box (for_loop s' ds) = Some (x1 dl, y1 dl, x2 dl, y2 dl)" for s'
    unfolding assms(4) using assms(5,6) by (rule l_box_last)
  have "offset_percentage (process_frame fr (Returns ds)) =
           (case true_divide ((x1 dl + x2 dl) div 2 - (x1 dt + x2 dt) div 2)
                             (x2 dt - x1 dt) of
              Inl e \<Rightarrow> None
            | Inr q \<Rightarrow> Some (float_mul q 100))"
    using offset_percentage_stored [OF t l] by (simp add: box_quotient_def)
  with t l show ?thesis by simp
qed

theorem C10_last_of_class_witness:
  "t_box (for_loop (start \<lparr>shape0 = 480, shape1 = 640\<rparr> 320)
       [\<lparr>x1 = 0, y1 = 50, x2 = 50, y2 = 90, class_name = ''topTether''\<rparr>,
        \<lparr>x1 = 505, y1 = 60, x2 = 515, y2 = 80, class_name = ''logo''\<rparr>,
        \<lparr>x1 = 400, y1 = 50, x2 = 600, y2 = 90, class_name = ''topTether''\<rparr>])
     = Some (400, 50, 600, 90)
   \<and> offset_percentage (process_frame \<lparr>shape0 = 480, shape1 = 640\<rparr> (Returns
       [\<lparr>x1 = 0, y1 = 50, x2 = 50, y2 = 90, class_name = ''topTether''\<rparr>,
        \<lparr>x1 = 505, y1 = 60, x2 = 515, y2 = 80, class_name = ''logo''\<rparr>,
        \<lparr>x1 = 400, y1 = 50, x2 = 600, y2 = 90, class_name = ''topTether''\<rparr>]))
     = Some 5"
proof -
  have "[\<lparr>x1 = 0, y1 = 50, x2 = 50, y2 = 90, class_name = ''topTether''\<rparr>,
         \<lparr>x1 = 505, y1 = 60, x2 = 515, y2 = 80, class_name = ''logo''\<rparr>,
         \<lparr>x1 = 400, y1 = 50, x2 = 600, y2 = 90, class_name = ''topTether''\<rparr>]
      = [\<lparr>x1 = 0, y1 = 50, x2 = 50, y2 = 90, class_name = ''topTether''\<rparr>,
         \<lparr>x1 = 505, y1 = 60, x2 = 515, y2 = 80, class_name = ''logo''\<rparr>]
        @ \<lparr>x1 = 400, y1 = 50, x2 = 600, y2 = 90, class_name = ''topTether''\<rparr> # []"
    and "class_name \<lparr>x1 = 400, y1 = 50, x2 = 600, y2 = 90, class_name = ''topTether''\<rparr>
           = ''topTether''"
    and "\<not> detected ''topTether'' []"
    and "[\<lparr>x1 = 0, y1 = 50, x2 = 50, y2 = 90, class_name = ''topTether''\<rparr>,
          \<lparr>x1 = 505, y1 = 60, x2 = 515, y2 = 80, class_name = ''logo''\<rparr>,
          \<lparr>x1 = 400, y1 = 50, x2 = 600, y2 = 90, class_name = ''topTether''\<rparr>]
      = [\<lparr>x1 = 0, y1 = 50, x2 = 50, y2 = 90, class_name = ''topTether''\<rparr>]
        @ \<lparr>x1 = 505, y1 = 60, x2 = 515, y2 = 80, class_name = ''logo''\<rparr>
        # [\<lparr>x1 = 400, y1 = 50, x2 = 600, y2 = 90, class_name = ''topTether''\<rparr>]"
    and "class_name \<lparr>x1 = 505, y1 = 60, x2 = 515, y2 = 80, class_name = ''logo''\<rparr>
           = ''logo''"
    and "\<not> detected ''logo''
           [\<lparr>x1 = 400, y1 = 50, x2 = 600, y2 = 90, class_name = ''topTether''\<rparr>]"
    by (simp_all add: detected_def)
  note inst = C10_last_of_class [OF this, of "start \<lparr>shape0 = 480, shape1 = 640\<rparr> 320"
      "\<lparr>shape0 = 480, shape1 = 640\<rparr>"]
  have v: "(case true_divide 10 200 of Inl e \<Rightarrow> None | Inr q \<Rightarrow> Some (float_mul q 100))
             = Some 5"
    by code_simp
  from inst v show ?thesis by simp
qed

subsection \<open>\<open>main\<close>: what is caught and what is cleaned up\<close>

lemma try_body_bound:
  "try_body w = (bound, acts, e) \<Longrightarrow> bound = (\<exists>u. initialize_camera w = Returns u)"
  by (auto simp: try_body_def split: outcome.splits prod.splits)

text \<open>
  Once \<^verbatim>\<open>initialize_camera()\<close> has returned and the two cleanup calls return, every run
  that leaves the \<^verbatim>\<open>try\<close> body ends with the camera stopped and the windows destroyed,
  and an exception of class \<^verbatim>\<open>Exception\<close> is printed and does not leave \<open>main\<close>.
\<close>

lemma main_camera_started:
  assumes "initialize_camera w = Returns u"
    and "stop w = Returns v" and "destroyAllWindows w = Returns v'"
    and "try_body w = (bound, acts, e)" and "e \<noteq> Running"
  shows "main w =
           (acts @ fst (handlers e) @ [Camera_stopped, Windows_destroyed],
            (case snd (handlers e) of None \<Rightarrow> Returned | Some x \<Rightarrow> Propagated x))"
proof -
  from assms(1,4) have "bound" using try_body_bound [of w bound acts e] by simp
  then show ?thesis using assms(2-5)
    by (simp add: main_def finally_clause_def split: prod.splits)
qed

lemma main_catches_Exception:
  assumes "initialize_camera w = Returns u"
    and "stop w = Returns v" and "destroyAllWindows w = Returns v'"
    and "try_body w = (bound, acts, Raised e)" and "is_Exception e"
  shows "main w = (acts @ [Print_error e, Camera_stopped, Windows_destroyed], Returned)"
proof -
  from assms(5) have "e \<noteq> KeyboardInterrupt" by auto
  with assms(5) have "handlers (Raised e) = ([Print_error e], None)" by simp
  with main_camera_started [OF assms(1-4)] show ?thesis by simp
qed

text \<open>
  When \<^verbatim>\<open>initialize_camera()\<close> raises, \<^verbatim>\<open>picam2\<close> is unbound in the \<^verbatim>\<open>finally\<close> clause:
  whatever the handlers did, \<^verbatim>\<open>picam2.stop()\<close> raises \<^verbatim>\<open>UnboundLocalError\<close>, which leaves
  \<open>main\<close>, and the windows are not destroyed.
\<close>

lemma main_camera_failure:
  assumes "initialize_camera w = Raises e"
  shows "main w = (fst (handlers (Raised e)), Propagated (UnboundLocalError ''picam2''))"
  using assms by (simp add: main_def try_body_def finally_clause_def split: prod.splits)

text \<open>
  C3 (fails on the code): every exception raised during camera initialisation, model
  loading or the loop is caught by the catch-all and none leaves \<open>main\<close>. When the camera
  cannot be initialised, the exception is caught and printed, but the \<^verbatim>\<open>finally\<close> clause
  then raises \<^verbatim>\<open>UnboundLocalError\<close>, which does leave \<open>main\<close>.
\<close>

theorem C3_camera_failure_propagates:
  "main \<lparr>initialize_camera = Raises (OtherException ''Camera not found''),
         YOLO = Returns (), iterations = [],
         stop = Returns (), destroyAllWindows = Returns ()\<rparr>
     = ([Print_error (OtherException ''Camera not found'')],
        Propagated (UnboundLocalError ''picam2''))"
  by (simp add: main_def try_body_def finally_clause_def)

text \<open>
  C4 (fails on the code): on every termination path the camera is stopped and the
  windows are destroyed. With Ctrl-C during the two seconds of warm-up inside
  \<^verbatim>\<open>initialize_camera()\<close> the exit message is printed, and then neither happens.
\<close>

theorem C4_no_cleanup_after_camera_failure:
  "main \<lparr>initialize_camera = Raises KeyboardInterrupt,
         YOLO = Returns (), iterations = [],
         stop = Returns (), destroyAllWindows = Returns ()\<rparr>
     = ([Print (CHR 0x0A # ''Exiting program...'')],
        Propagated (UnboundLocalError ''picam2''))
   \<and> Camera_stopped \<notin> set (fst (main \<lparr>initialize_camera = Raises KeyboardInterrupt,
         YOLO = Returns (), iterations = [],
         stop = Returns (), destroyAllWindows = Returns ()\<rparr>))
   \<and> Windows_destroyed \<notin> set (fst (main \<lparr>initialize_camera = Raises KeyboardInterrupt,
         YOLO = Returns (), iterations = [],
         stop = Returns (), destroyAllWindows = Returns ()\<rparr>))"
  by (simp add: main_def try_body_def finally_clause_def)

end
